theory Spec2Isabelle
  imports Complex_Main
begin

section \<open>Conventions of the embedding\<close>

text \<open>
  The bot is written in Python. Its \<open>float\<close> values are embedded as \<^typ>\<open>real\<close>
  (exact arithmetic: rounding, infinities and NaN of IEEE doubles are not part of the
  model), its \<open>int\<close> values as \<^typ>\<open>int\<close>, its \<open>str\<close> values as \<^typ>\<open>string\<close>
  (ASCII text), \<open>Optional[T]\<close> as \<^typ>\<open>'a option\<close>. A function that can raise
  returns \<open>py_error + 'a\<close>, with \<open>Inl\<close> the exception. Text produced by an f-string
  is embedded as a constructor that carries the values the f-string interpolates.
  \<open>datetime.now()\<close> is an explicit argument \<open>now\<close> of the function that calls it.

  Exact arithmetic has a price. A number computed by the model is the number the program
  computes only up to the rounding of each double operation, and a truncation or a
  comparison applied to such a number can fall on the other side: for a lot size of
  \<open>0.0003\<close> the program computes \<open>0.0003 * 100000 = 29.999999999999996\<close> and \<open>int\<close> of it
  is 29, where the model has 30 units. The theorems below are therefore about the control
  flow of the program and about the formulas it evaluates; no theorem bounds a rounding
  error.
\<close>

datatype py_error =
    ZeroDivisionError | TypeError | AttributeError | IndexError | ValueError | KeyError
  | OtherException   \<comment> \<open>any other exception: a plain \<open>Exception\<close>, an error of a library\<close>
  | NonFiniteFloat
    \<comment> \<open>not an exception: a float operation whose result is \<open>nan\<close> or \<open>inf\<close> in numpy (the
        mean of an empty slice, a division by a zero float, which raises for a Python
        float); the reals have no such values and the model stops there\<close>

type_synonym datetime = nat

text \<open>\<open>str.upper()\<close> on ASCII text, \<open>str.replace(c, '')\<close>, and \<open>p in s\<close> on strings.\<close>

definition upper_char :: "char \<Rightarrow> char" where
  "upper_char c =
     (case map_of (zip ''abcdefghijklmnopqrstuvwxyz'' ''ABCDEFGHIJKLMNOPQRSTUVWXYZ'') c of
        None \<Rightarrow> c | Some u \<Rightarrow> u)"

definition upper :: "string \<Rightarrow> string" where
  "upper s = map upper_char s"

definition remove_char :: "char \<Rightarrow> string \<Rightarrow> string" where
  "remove_char c s = filter (\<lambda>d. d \<noteq> c) s"

fun starts_with :: "string \<Rightarrow> string \<Rightarrow> bool" where
  "starts_with [] s = True"
| "starts_with (p # ps) [] = False"
| "starts_with (p # ps) (c # cs) = (p = c \<and> starts_with ps cs)"

fun contains :: "string \<Rightarrow> string \<Rightarrow> bool" where
  "contains p [] = (p = [])"
| "contains p (c # cs) = (starts_with p (c # cs) \<or> contains p cs)"

text \<open>\<open>int(x)\<close> of a float: truncation towards zero.\<close>

definition py_int :: "real \<Rightarrow> int" where
  "py_int x = (if 0 \<le> x then \<lfloor>x\<rfloor> else \<lceil>x\<rceil>)"

section \<open>risk\_manager.py\<close>

text \<open>
  The text of \<open>PositionSize.warning\<close>: the messages of the source, each with the values
  it interpolates; a list stands for its messages joined by \<open>" | "\<close>.
\<close>

datatype warning_part =
    RiskAdjusted real real      \<comment> \<open>"Risk r% melebihi maksimum m%. Disesuaikan."\<close>
  | InvalidStopLoss             \<comment> \<open>"Invalid stop loss distance"\<close>
  | MarginExceeded real real    \<comment> \<open>"Margin required ($m) melebihi equity ($e)"\<close>
  | SmallLot real               \<comment> \<open>"Lot size sangat kecil (l). Pertimbangkan akun micro."\<close>

record PositionSize =
  lot_size :: real
  units :: int
  risk_amount :: real
  risk_percent :: real
  stop_loss_pips :: real
  potential_loss :: real
  potential_profit :: real
  margin_required :: real
  is_valid :: bool
  warning :: "warning_part list option"

record RiskManager =
  equity :: real
  leverage :: int
  account_type :: string
  max_risk_percent :: real
  default_risk_percent :: real
  account_currency :: string
  lot_multiplier :: int

definition LOT_SIZES :: "(string \<times> int) list" where
  "LOT_SIZES = [(''standard'', 100000), (''mini'', 10000), (''micro'', 1000)]"

definition PIP_VALUES :: "(string \<times> real) list" where
  "PIP_VALUES =
     [(''EURUSD'', 10), (''GBPUSD'', 10), (''AUDUSD'', 10), (''NZDUSD'', 10),
      (''USDCHF'', 10), (''USDCAD'', 10), (''USDJPY'', 91 / 10), (''EURJPY'', 91 / 10),
      (''GBPJPY'', 91 / 10), (''XAUUSD'', 10), (''BTCUSD'', 1), (''BTCUSDT'', 1),
      (''ETHUSD'', 1), (''ETHUSDT'', 1)]"

text \<open>\<open>dict.get(key, default)\<close>.\<close>

definition dict_get :: "('k \<times> 'v) list \<Rightarrow> 'k \<Rightarrow> 'v \<Rightarrow> 'v" where
  "dict_get d k dflt = (case map_of d k of None \<Rightarrow> dflt | Some v \<Rightarrow> v)"

definition lower_char :: "char \<Rightarrow> char" where
  "lower_char c =
     (case map_of (zip ''ABCDEFGHIJKLMNOPQRSTUVWXYZ'' ''abcdefghijklmnopqrstuvwxyz'') c of
        None \<Rightarrow> c | Some l \<Rightarrow> l)"

definition lower :: "string \<Rightarrow> string" where
  "lower s = map lower_char s"

text \<open>\<open>RiskManager.__init__\<close>.\<close>

definition RiskManager_init ::
  "real \<Rightarrow> int \<Rightarrow> string \<Rightarrow> real \<Rightarrow> real \<Rightarrow> string \<Rightarrow> RiskManager" where
  "RiskManager_init eq lev atype max_rp default_rp currency =
     \<lparr>equity = eq, leverage = lev, account_type = lower atype,
      max_risk_percent = max_rp, default_risk_percent = default_rp,
      account_currency = currency,
      lot_multiplier = dict_get LOT_SIZES (lower atype) 100000\<rparr>"

definition get_pip_value :: "RiskManager \<Rightarrow> string \<Rightarrow> real \<Rightarrow> real" where
  "get_pip_value rm symbol lot =
     (let symbol_upper = remove_char CHR ''/'' (upper symbol);
          base_pip_value = dict_get PIP_VALUES symbol_upper 10;
          type_multiplier = real_of_int (lot_multiplier rm) / 100000
      in base_pip_value * lot * type_multiplier)"

definition pip_size_of :: "string \<Rightarrow> real" where
  "pip_size_of symbol =
     (let symbol_upper = upper symbol
      in if contains ''JPY'' symbol_upper then 1 / 100
         else if contains ''BTC'' symbol_upper \<or> contains ''ETH'' symbol_upper then 1
         else if contains ''XAU'' symbol_upper then 1 / 10
         else 1 / 10000)"

definition calculate_pips :: "string \<Rightarrow> real \<Rightarrow> real \<Rightarrow> real" where
  "calculate_pips symbol entry sl = \<bar>entry - sl\<bar> / pip_size_of symbol"

definition calculate_position_size ::
  "RiskManager \<Rightarrow> string \<Rightarrow> real \<Rightarrow> real \<Rightarrow> real \<Rightarrow> real option \<Rightarrow> py_error + PositionSize"
where
  "calculate_position_size rm symbol entry sl tp rp_opt =
     (let rp0 = (case rp_opt of None \<Rightarrow> default_risk_percent rm | Some r \<Rightarrow> r);
          warning0 = (if rp0 > max_risk_percent rm
                      then Some [RiskAdjusted rp0 (max_risk_percent rm)] else None);
          rp = (if rp0 > max_risk_percent rm then max_risk_percent rm else rp0);
          ramount = equity rm * (rp / 100);
          sl_pips = calculate_pips symbol entry sl
      in if sl_pips \<le> 0 then
           Inr \<lparr>lot_size = 0, units = 0, risk_amount = ramount, risk_percent = rp,
                stop_loss_pips = 0, potential_loss = 0, potential_profit = 0,
                margin_required = 0, is_valid = False, warning = Some [InvalidStopLoss]\<rparr>
         else
           let pip_value_per_lot = get_pip_value rm symbol 1 in
           if sl_pips * pip_value_per_lot = 0 then Inl ZeroDivisionError
           else
             let lot = ramount / (sl_pips * pip_value_per_lot);
                 n_units = py_int (lot * real_of_int (lot_multiplier rm))
             in if leverage rm = 0 then Inl ZeroDivisionError
                else
                  let margin = (real_of_int n_units * entry) / real_of_int (leverage rm);
                      ploss = sl_pips * pip_value_per_lot * lot;
                      tp_pips = calculate_pips symbol entry tp;
                      pprofit = tp_pips * pip_value_per_lot * lot;
                      valid = \<not> (margin > equity rm);
                      warning1 = (if margin > equity rm
                                  then Some [MarginExceeded margin (equity rm)] else warning0);
                      warning2 = (if lot < 1 / 100
                                  then (case warning1 of
                                          Some ws \<Rightarrow> Some (ws @ [SmallLot lot])
                                        | None \<Rightarrow> Some [SmallLot lot])
                                  else warning1)
                  in Inr \<lparr>lot_size = lot, units = n_units, risk_amount = ramount,
                          risk_percent = rp, stop_loss_pips = sl_pips,
                          potential_loss = ploss, potential_profit = pprofit,
                          margin_required = margin, is_valid = valid,
                          warning = warning2\<rparr>)"

section \<open>trade\_executor.py\<close>

datatype OrderStatus = PENDING | FILLED | PARTIALLY_FILLED | CANCELLED | REJECTED | ERROR

text \<open>The texts of \<open>OrderResult.error_message\<close>, with the values they interpolate.\<close>

datatype order_message =
    InsufficientBalance real real   \<comment> \<open>"Insufficient balance. Required: $r, Available: $a"\<close>
  | PositionNotFound string         \<comment> \<open>"Position p not found"\<close>
  | SizeValidationFailed "warning_part list option"
                                    \<comment> \<open>"Position size validation failed: w"\<close>
  | VenueMessage string             \<comment> \<open>\<open>str(e)\<close> of an exception of the venue\<close>

text \<open>
  \<open>OrderResult\<close>; the field \<open>raw_response\<close> (the venue's reply, an empty dict in the
  simulated executor) is left out.
\<close>

record OrderResult =
  order_id :: string
  o_symbol :: string
  o_side :: string
  order_type :: string
  status :: OrderStatus
  o_entry_price :: real
  filled_price :: "real option"
  o_quantity :: real
  filled_quantity :: real
  o_stop_loss :: "real option"
  o_take_profit :: "real option"
  o_timestamp :: datetime
  error_message :: "order_message option"

text \<open>The dict that \<open>DryRunExecutor.execute_trade\<close> appends to \<open>self.positions\<close>.\<close>

record Position =
  p_id :: string
  p_symbol :: string
  p_side :: string
  p_quantity :: real
  p_entry_price :: real
  p_stop_loss :: "real option"
  p_take_profit :: "real option"
  p_margin :: real
  p_opened_at :: datetime
  p_pnl :: real

record DryRunExecutor =
  balance :: real
  positions :: "Position list"
  order_history :: "OrderResult list"
  order_counter :: int
  is_connected :: bool

definition DryRunExecutor_init :: "real \<Rightarrow> DryRunExecutor" where
  "DryRunExecutor_init initial_balance =
     \<lparr>balance = initial_balance, positions = [], order_history = [], order_counter = 0,
      is_connected = False\<rparr>"

record Balance =
  b_total :: real
  b_free :: real
  b_used :: real

definition get_balance :: "DryRunExecutor \<Rightarrow> Balance" where
  "get_balance ex =
     \<lparr>b_total = balance ex,
      b_free = balance ex - sum_list (map p_margin (positions ex)),
      b_used = sum_list (map p_margin (positions ex))\<rparr>"

text \<open>The format \<open>{n:06d}\<close>: decimal digits, zero-padded to width 6, the sign included.\<close>

definition digit_char :: "nat \<Rightarrow> char" where
  "digit_char d = ''0123456789'' ! d"

function decimal :: "nat \<Rightarrow> string" where
  "decimal n = (if n < 10 then [digit_char n] else decimal (n div 10) @ [digit_char (n mod 10)])"
  by pat_completeness auto
termination
  by (relation "measure id") auto

declare decimal.simps [simp del]

definition zero_pad :: "nat \<Rightarrow> string \<Rightarrow> string" where
  "zero_pad w s = replicate (w - length s) CHR ''0'' @ s"

definition format_06d :: "int \<Rightarrow> string" where
  "format_06d i =
     (if i < 0 then CHR ''-'' # zero_pad 5 (decimal (nat (- i)))
      else zero_pad 6 (decimal (nat i)))"

text \<open>
  \<open>DryRunExecutor.execute_trade\<close>. \<open>opened\<close> and \<open>now\<close> are the two readings of the clock
  (the position's \<open>opened_at\<close> and the result's \<open>timestamp\<close>).
\<close>

definition execute_trade ::
  "DryRunExecutor \<Rightarrow> datetime \<Rightarrow> datetime \<Rightarrow> string \<Rightarrow> string \<Rightarrow> real \<Rightarrow> real \<Rightarrow>
   real option \<Rightarrow> real option \<Rightarrow> OrderResult \<times> DryRunExecutor" where
  "execute_trade ex opened now symbol side quantity entry sl tp =
     (let ex1 = ex\<lparr>order_counter := order_counter ex + 1\<rparr>;
          oid = ''DRY_'' @ format_06d (order_counter ex1);
          margin = quantity * entry * (1 / 100);
          bal = get_balance ex1
      in if margin > b_free bal then
           (\<lparr>order_id = oid, o_symbol = symbol, o_side = side, order_type = ''MARKET'',
             status = REJECTED, o_entry_price = entry, filled_price = None,
             o_quantity = quantity, filled_quantity = 0, o_stop_loss = sl,
             o_take_profit = tp, o_timestamp = now,
             error_message = Some (InsufficientBalance margin (b_free bal))\<rparr>, ex1)
         else
           let filled = entry;
               position = \<lparr>p_id = oid, p_symbol = symbol, p_side = side,
                            p_quantity = quantity, p_entry_price = filled, p_stop_loss = sl,
                            p_take_profit = tp, p_margin = margin, p_opened_at = opened,
                            p_pnl = 0\<rparr>;
               ex2 = ex1\<lparr>positions := positions ex1 @ [position]\<rparr>;
               result = \<lparr>order_id = oid, o_symbol = symbol, o_side = side,
                          order_type = ''MARKET'', status = FILLED, o_entry_price = entry,
                          filled_price = Some filled, o_quantity = quantity,
                          filled_quantity = quantity, o_stop_loss = sl, o_take_profit = tp,
                          o_timestamp = now, error_message = None\<rparr>
           in (result, ex2\<lparr>order_history := order_history ex2 @ [result]\<rparr>))"

text \<open>
  \<open>DryRunExecutor.close_position\<close>: \<open>next(...)\<close> takes the first position with the id,
  \<open>list.remove\<close> deletes the first element equal to it.
\<close>

definition close_position ::
  "DryRunExecutor \<Rightarrow> datetime \<Rightarrow> string \<Rightarrow> real \<Rightarrow> OrderResult \<times> DryRunExecutor" where
  "close_position ex now position_id exit_price =
     (case find (\<lambda>p. p_id p = position_id) (positions ex) of
        None \<Rightarrow>
          (\<lparr>order_id = ''CLOSE_'' @ position_id, o_symbol = '''', o_side = '''',
            order_type = ''MARKET'', status = ERROR, o_entry_price = 0, filled_price = None,
            o_quantity = 0, filled_quantity = 0, o_stop_loss = None, o_take_profit = None,
            o_timestamp = now, error_message = Some (PositionNotFound position_id)\<rparr>, ex)
      | Some position \<Rightarrow>
          let pnl = (if p_side position = ''BUY''
                     then (exit_price - p_entry_price position) * p_quantity position
                     else (p_entry_price position - exit_price) * p_quantity position)
          in (\<lparr>order_id = ''CLOSE_'' @ position_id, o_symbol = p_symbol position,
               o_side = (if p_side position = ''BUY'' then ''SELL'' else ''BUY''),
               order_type = ''MARKET'', status = FILLED, o_entry_price = exit_price,
               filled_price = Some exit_price, o_quantity = p_quantity position,
               filled_quantity = p_quantity position, o_stop_loss = None,
               o_take_profit = None, o_timestamp = now, error_message = None\<rparr>,
              ex\<lparr>balance := balance ex + pnl,
                 positions := remove1 position (positions ex)\<rparr>))"


text \<open>A ledger for the examples: one open BUY position of 2 units entered at 100.\<close>

definition example_position :: Position where
  "example_position =
     \<lparr>p_id = ''DRY_000001'', p_symbol = ''BTCUSDT'', p_side = ''BUY'', p_quantity = 2,
      p_entry_price = 100, p_stop_loss = None, p_take_profit = None, p_margin = 2,
      p_opened_at = 0, p_pnl = 0\<rparr>"

definition example_executor :: DryRunExecutor where
  "example_executor =
     \<lparr>balance = 10000, positions = [example_position], order_history = [],
      order_counter = 1, is_connected = True\<rparr>"

section \<open>Python sequences\<close>

definition ebind :: "py_error + 'a \<Rightarrow> ('a \<Rightarrow> py_error + 'b) \<Rightarrow> py_error + 'b" where
  "ebind m f = (case m of Inl e \<Rightarrow> Inl e | Inr x \<Rightarrow> f x)"

text \<open>
  \<open>xs[i]\<close> and \<open>xs[i] = v\<close>. An index from \<open>-len(xs)\<close> to \<open>-1\<close> counts from the end;
  \<open>resolve_index\<close> gives the position it stands for, if there is one.
\<close>

definition resolve_index :: "nat \<Rightarrow> int \<Rightarrow> nat option" where
  "resolve_index len i =
     (if 0 \<le> i \<and> i < int len then Some (nat i)
      else if - int len \<le> i \<and> i < 0 then Some (nat (int len + i))
      else None)"

definition getitem :: "'a list \<Rightarrow> int \<Rightarrow> py_error + 'a" where
  "getitem xs i =
     (case resolve_index (length xs) i of None \<Rightarrow> Inl IndexError | Some k \<Rightarrow> Inr (xs ! k))"

definition setitem :: "'a list \<Rightarrow> int \<Rightarrow> 'a \<Rightarrow> py_error + 'a list" where
  "setitem xs i v =
     (case resolve_index (length xs) i of
        None \<Rightarrow> Inl IndexError
      | Some k \<Rightarrow> Inr (xs[k := v]))"

text \<open>\<open>xs[a:b]\<close>; \<open>None\<close> is an omitted bound.\<close>

definition slice_bound :: "int \<Rightarrow> int \<Rightarrow> nat" where
  "slice_bound n i = nat (if i < 0 then max (n + i) 0 else min i n)"

definition py_slice :: "'a list \<Rightarrow> int option \<Rightarrow> int option \<Rightarrow> 'a list" where
  "py_slice xs a b =
     (let n = int (length xs);
          lo = (case a of None \<Rightarrow> 0 | Some i \<Rightarrow> slice_bound n i);
          hi = (case b of None \<Rightarrow> length xs | Some i \<Rightarrow> slice_bound n i)
      in take (hi - lo) (drop lo xs))"

text \<open>\<open>range(a, b)\<close>.\<close>

definition py_range :: "int \<Rightarrow> int \<Rightarrow> int list" where
  "py_range a b = [a..b - 1]"

text \<open>\<open>min\<close> and \<open>max\<close> of a sequence raise \<open>ValueError\<close> on an empty one.\<close>

fun py_min :: "real list \<Rightarrow> py_error + real" where
  "py_min [] = Inl ValueError"
| "py_min (x # xs) = Inr (fold min xs x)"

fun py_max :: "real list \<Rightarrow> py_error + real" where
  "py_max [] = Inl ValueError"
| "py_max (x # xs) = Inr (fold max xs x)"

text \<open>\<open>np.mean\<close>: \<open>nan\<close> (with a warning) on an empty array.\<close>

definition np_mean :: "real list \<Rightarrow> py_error + real" where
  "np_mean xs = (if xs = [] then Inl NonFiniteFloat else Inr (sum_list xs / real (length xs)))"

section \<open>strategy\_engine.py\<close>

text \<open>The parts of \<open>TradeSignal.reason\<close>, joined by \<open>" | "\<close> in the source.\<close>

datatype reason_part =
    GoldenCross                 \<comment> \<open>"Golden Cross (EMA 9 > EMA 21)"\<close>
  | AboveEMA200 real real       \<comment> \<open>"Harga di atas EMA 200 (c > e)"\<close>
  | DeathCross                  \<comment> \<open>"Death Cross (EMA 9 < EMA 21)"\<close>
  | BelowEMA200 real real       \<comment> \<open>"Harga di bawah EMA 200 (c < e)"\<close>
  | SLSwingLow real             \<comment> \<open>"SL di Swing Low: s"\<close>
  | SLSwingHigh real            \<comment> \<open>"SL di Swing High: s"\<close>
  | TPWithRRR real              \<comment> \<open>"TP dengan RRR 1:r"\<close>
  | ConfidenceLevel real        \<comment> \<open>"Confidence: c%"\<close>

record TradeSignal =
  action :: string
  entry_price :: real
  stop_loss :: real
  take_profit :: real
  swing_point :: real
  ema_9 :: real
  ema_21 :: real
  ema_200 :: real
  risk_reward_ratio :: real
  confidence :: real
  timestamp :: datetime
  reason :: "reason_part list"

text \<open>
  One candle of \<open>ohlcv_data\<close> is a dict from the keys \<open>'open'\<close>, \<open>'high'\<close>, \<open>'low'\<close>,
  \<open>'close'\<close>, \<open>'volume'\<close>, \<open>'timestamp'\<close> to values; the engine reads the numeric ones.
  \<open>c[k]\<close> raises \<open>KeyError\<close> for a missing key, \<open>c.get(k, d)\<close> gives \<open>d\<close>.
\<close>

type_synonym Candle = "string \<rightharpoonup> real"

definition dict_item :: "('k \<rightharpoonup> 'v) \<Rightarrow> 'k \<Rightarrow> py_error + 'v" where
  "dict_item d k = (case d k of None \<Rightarrow> Inl KeyError | Some v \<Rightarrow> Inr v)"

text \<open>The list comprehension \<open>[c[k] for c in ohlcv_data]\<close>.\<close>

fun column :: "string \<Rightarrow> Candle list \<Rightarrow> py_error + real list" where
  "column k [] = Inr []"
| "column k (c # cs) =
     (case dict_item c k of
        Inl e \<Rightarrow> Inl e
      | Inr v \<Rightarrow> (case column k cs of Inl e \<Rightarrow> Inl e | Inr vs \<Rightarrow> Inr (v # vs)))"

text \<open>
  \<open>StrategyEngine\<close>; \<open>prev_ema_fast\<close> and \<open>prev_ema_medium\<close> are the attributes
  \<open>_prev_ema_fast\<close> and \<open>_prev_ema_medium\<close>.
\<close>

record StrategyEngine =
  ema_fast :: int
  ema_medium :: int
  ema_slow :: int
  swing_lookback :: int
  min_rrr :: real
  min_confidence :: real
  prev_ema_fast :: "real option"
  prev_ema_medium :: "real option"

definition StrategyEngine_init ::
  "int \<Rightarrow> int \<Rightarrow> int \<Rightarrow> int \<Rightarrow> real \<Rightarrow> real \<Rightarrow> StrategyEngine" where
  "StrategyEngine_init fast medium slow lookback rrr conf =
     \<lparr>ema_fast = fast, ema_medium = medium, ema_slow = slow, swing_lookback = lookback,
      min_rrr = rrr, min_confidence = conf, prev_ema_fast = None, prev_ema_medium = None\<rparr>"

text \<open>The loop of \<open>calculate_ema\<close>, over the indices \<open>range(period, len(data))\<close>.\<close>

fun ema_loop :: "real list \<Rightarrow> real \<Rightarrow> int list \<Rightarrow> real list \<Rightarrow> py_error + real list" where
  "ema_loop data multiplier [] ema = Inr ema"
| "ema_loop data multiplier (i # rest) ema =
     (case getitem data i of
        Inl e \<Rightarrow> Inl e
      | Inr d \<Rightarrow>
          (case getitem ema (i - 1) of
             Inl e \<Rightarrow> Inl e
           | Inr prev \<Rightarrow>
               (case setitem ema i (d * multiplier + prev * (1 - multiplier)) of
                  Inl e \<Rightarrow> Inl e
                | Inr ema' \<Rightarrow> ema_loop data multiplier rest ema')))"

definition calculate_ema :: "real list \<Rightarrow> int \<Rightarrow> py_error + real list" where
  "calculate_ema data period =
     (if int (length data) < period then Inr []
      else if period + 1 = 0 then Inl ZeroDivisionError
      else
        let multiplier = 2 / real_of_int (period + 1);
            ema = replicate (length data) 0
        in ebind (np_mean (py_slice data None (Some period))) (\<lambda>sma.
           ebind (setitem ema (period - 1) sma) (\<lambda>ema1.
           ema_loop data multiplier (py_range period (int (length data))) ema1)))"

text \<open>
  The loop of \<open>find_swing_low\<close> and \<open>find_swing_high\<close>, with \<open>min\<close> or \<open>max\<close> for
  \<open>extremum\<close>; \<open>found\<close> is the list \<open>swing_lows\<close> (\<open>swing_highs\<close>).
\<close>

fun swing_loop ::
  "(real list \<Rightarrow> py_error + real) \<Rightarrow> real list \<Rightarrow> int \<Rightarrow> int list \<Rightarrow> (int \<times> real) list \<Rightarrow>
   py_error + (int \<times> real) list" where
  "swing_loop extremum xs lookback [] found = Inr found"
| "swing_loop extremum xs lookback (i # rest) found =
     (case getitem xs i of
        Inl e \<Rightarrow> Inl e
      | Inr v \<Rightarrow>
          (case extremum (py_slice xs (Some (i - lookback)) (Some (i + lookback + 1))) of
             Inl e \<Rightarrow> Inl e
           | Inr m \<Rightarrow>
               swing_loop extremum xs lookback rest
                 (if v = m then found @ [(i, v)] else found)))"

definition find_swing ::
  "(real list \<Rightarrow> py_error + real) \<Rightarrow> real list \<Rightarrow> int \<Rightarrow> py_error + real" where
  "find_swing extremum xs lookback =
     (let n = int (length xs) in
      if n < lookback * 2 + 1 then
        (if n \<ge> lookback then extremum (py_slice xs (Some (- lookback)) None)
         else extremum xs)
      else
        ebind (swing_loop extremum xs lookback (py_range lookback (n - lookback)) [])
          (\<lambda>found. if found \<noteq> [] then Inr (snd (last found))
                    else extremum (py_slice xs (Some (- lookback)) None)))"

definition find_swing_low :: "real list \<Rightarrow> int \<Rightarrow> py_error + real" where
  "find_swing_low lows lookback = find_swing py_min lows lookback"

definition find_swing_high :: "real list \<Rightarrow> int \<Rightarrow> py_error + real" where
  "find_swing_high highs lookback = find_swing py_max highs lookback"

definition detect_crossover :: "real \<Rightarrow> real \<Rightarrow> real \<Rightarrow> real \<Rightarrow> string option" where
  "detect_crossover ema_fast_current ema_medium_current ema_fast_prev ema_medium_prev =
     (if ema_fast_prev \<le> ema_medium_prev \<and> ema_fast_current > ema_medium_current
      then Some ''BULLISH''
      else if ema_fast_prev \<ge> ema_medium_prev \<and> ema_fast_current < ema_medium_current
      then Some ''BEARISH''
      else None)"

text \<open>
  \<open>calculate_confidence\<close>, in three steps. First the value of \<open>confidence\<close> before the
  volume confirmation: trend alignment and price position. The division by \<open>close\<close>
  raises for a Python float 0 and gives \<open>inf\<close> or \<open>nan\<close> for a numpy float 0.
\<close>

definition trend_confidence :: "string \<Rightarrow> real \<Rightarrow> real \<Rightarrow> real \<Rightarrow> real \<Rightarrow> py_error + real" where
  "trend_confidence act close e9 e21 e200 =
     (if act = ''BUY'' then
        (let c1 = (if close > e200 then 25 else 0);
             c2 = (if e9 > e21 then c1 + 20 else c1);
             c3 = (if e21 > e200 then c2 + 15 else c2)
         in if close = 0 then Inl NonFiniteFloat
            else
              let price_above_ema9 = (close - e9) / close * 100
              in Inr (if 0 < price_above_ema9 \<and> price_above_ema9 < 1 then c3 + 15
                      else if price_above_ema9 > 2 then c3 - 10
                      else c3))
      else if act = ''SELL'' then
        (let c1 = (if close < e200 then 25 else 0);
             c2 = (if e9 < e21 then c1 + 20 else c1);
             c3 = (if e21 < e200 then c2 + 15 else c2)
         in if close = 0 then Inl NonFiniteFloat
            else
              let price_below_ema9 = (e9 - close) / close * 100
              in Inr (if 0 < price_below_ema9 \<and> price_below_ema9 < 1 then c3 + 15
                      else if price_below_ema9 > 2 then c3 - 10
                      else c3))
      else Inr 0)"

text \<open>
  Then the volume confirmation, an \<open>if\<close> / \<open>elif\<close> without \<open>else\<close>: the branch that is
  taken, and the points it adds.
\<close>

datatype volume_branch = AboveAverageVolume | HighVolume | NoVolumeConfirmation

definition volume_confirmation :: "real \<Rightarrow> volume_branch" where
  "volume_confirmation volume_ratio =
     (if volume_ratio > 12 / 10 then AboveAverageVolume
      else if volume_ratio > 15 / 10 then HighVolume
      else NoVolumeConfirmation)"

fun volume_bonus :: "volume_branch \<Rightarrow> real" where
  "volume_bonus AboveAverageVolume = 15"
| "volume_bonus HighVolume = 25"
| "volume_bonus NoVolumeConfirmation = 0"

definition calculate_confidence ::
  "string \<Rightarrow> real \<Rightarrow> real \<Rightarrow> real \<Rightarrow> real \<Rightarrow> real \<Rightarrow> py_error + real" where
  "calculate_confidence act close e9 e21 e200 volume_ratio =
     ebind (trend_confidence act close e9 e21 e200) (\<lambda>c.
       Inr (max 0 (min 100 (c + volume_bonus (volume_confirmation volume_ratio)))))"

text \<open>
  \<open>get_signal\<close>, steps 3 to 5 and the creation of the signal: what the source does once
  \<open>action\<close> is \<open>'BUY'\<close> or \<open>'SELL'\<close>; \<open>reason0\<close> is \<open>reason_parts\<close> at that point.
\<close>

definition build_signal ::
  "StrategyEngine \<Rightarrow> datetime \<Rightarrow> string \<Rightarrow> reason_part list \<Rightarrow> real list \<Rightarrow> real list \<Rightarrow>
   real \<Rightarrow> real \<Rightarrow> real \<Rightarrow> real \<Rightarrow> real \<Rightarrow> py_error + TradeSignal option" where
  "build_signal eng now act reason0 lows highs current_close e9 e21 e200 volume_ratio =
     ebind
       (if act = ''BUY''
        then ebind (find_swing_low lows (swing_lookback eng)) (\<lambda>swing_low.
               Inr (swing_low - swing_low * (1 / 1000), swing_low, SLSwingLow swing_low))
        else ebind (find_swing_high highs (swing_lookback eng)) (\<lambda>swing_high.
               Inr (swing_high + swing_high * (1 / 1000), swing_high,
                    SLSwingHigh swing_high)))
       (\<lambda>(sl, swing, sl_reason).
          let entry = current_close;
              sl_distance = \<bar>entry - sl\<bar>
          in if sl_distance = 0 then Inr None
             else
               let tp_distance = sl_distance * min_rrr eng;
                   tp = (if act = ''BUY'' then entry + tp_distance else entry - tp_distance);
                   rrr = tp_distance / sl_distance
               in ebind (calculate_confidence act current_close e9 e21 e200 volume_ratio)
                    (\<lambda>conf.
                       if conf < min_confidence eng then Inr None
                       else Inr (Some
                         \<lparr>action = act, entry_price = entry, stop_loss = sl,
                          take_profit = tp, swing_point = swing, ema_9 = e9, ema_21 = e21,
                          ema_200 = e200, risk_reward_ratio = rrr, confidence = conf,
                          timestamp = now,
                          reason = reason0 @ [sl_reason, TPWithRRR rrr,
                                              ConfidenceLevel conf]\<rparr>)))"

text \<open>\<open>StrategyEngine.get_signal\<close>; \<open>now\<close> is the value of \<open>datetime.now()\<close>.\<close>

definition get_signal ::
  "StrategyEngine \<Rightarrow> datetime \<Rightarrow> Candle list \<Rightarrow> py_error + TradeSignal option" where
  "get_signal eng now ohlcv_data =
     (let min_candles = max (ema_slow eng + 10) 250 in
      if int (length ohlcv_data) < min_candles then Inr None
      else
        ebind (column ''open'' ohlcv_data) (\<lambda>opens.
        ebind (column ''high'' ohlcv_data) (\<lambda>highs.
        ebind (column ''low'' ohlcv_data) (\<lambda>lows.
        ebind (column ''close'' ohlcv_data) (\<lambda>closes.
        let volumes = map (\<lambda>c. case c ''volume'' of None \<Rightarrow> 0 | Some v \<Rightarrow> v) ohlcv_data
        in
        ebind (calculate_ema closes (ema_fast eng)) (\<lambda>ema_9s.
        ebind (calculate_ema closes (ema_medium eng)) (\<lambda>ema_21s.
        ebind (calculate_ema closes (ema_slow eng)) (\<lambda>ema_200s.
        ebind (getitem closes (- 1)) (\<lambda>current_close.
        ebind (getitem ema_9s (- 1)) (\<lambda>current_ema_9.
        ebind (getitem ema_21s (- 1)) (\<lambda>current_ema_21.
        ebind (getitem ema_200s (- 1)) (\<lambda>current_ema_200.
        ebind (if length ema_9s > 1 then getitem ema_9s (- 2) else Inr current_ema_9)
          (\<lambda>prev_ema_9.
        ebind (if length ema_21s > 1 then getitem ema_21s (- 2) else Inr current_ema_21)
          (\<lambda>prev_ema_21.
        ebind (if length volumes \<ge> 20 then np_mean (py_slice volumes (Some (- 20)) None)
               else np_mean volumes) (\<lambda>avg_volume.
        ebind (getitem volumes (- 1)) (\<lambda>current_volume.
          let volume_ratio = (if avg_volume > 0 then current_volume / avg_volume else 1);
              is_uptrend = current_close > current_ema_200;
              is_downtrend = current_close < current_ema_200
          in if \<not> is_uptrend \<and> \<not> is_downtrend then Inr None
             else
               (case detect_crossover current_ema_9 current_ema_21 prev_ema_9 prev_ema_21 of
                  None \<Rightarrow> Inr None
                | Some crossover \<Rightarrow>
                    if crossover = ''BULLISH'' \<and> is_uptrend then
                      build_signal eng now ''BUY''
                        [GoldenCross, AboveEMA200 current_close current_ema_200]
                        lows highs current_close current_ema_9 current_ema_21
                        current_ema_200 volume_ratio
                    else if crossover = ''BEARISH'' \<and> is_downtrend then
                      build_signal eng now ''SELL''
                        [DeathCross, BelowEMA200 current_close current_ema_200]
                        lows highs current_close current_ema_9 current_ema_21
                        current_ema_200 volume_ratio
                    else Inr None)))))))))))))))))"

text \<open>
  A market for the examples: 249 flat candles closing at 100 and a last candle closing at
  110 on twice the volume, read by an engine with the periods 248, 249 and 240 and a
  swing lookback of 125.
\<close>

definition slow_engine :: StrategyEngine where
  "slow_engine = StrategyEngine_init 248 249 240 125 (15 / 10) 50"

definition flat_candle :: Candle where
  "flat_candle = [''open'' \<mapsto> 100, ''high'' \<mapsto> 101, ''low'' \<mapsto> 99, ''close'' \<mapsto> 100,
                  ''volume'' \<mapsto> 1]"

definition breakout_candle :: Candle where
  "breakout_candle = [''open'' \<mapsto> 100, ''high'' \<mapsto> 111, ''low'' \<mapsto> 100, ''close'' \<mapsto> 110,
                      ''volume'' \<mapsto> 2]"

definition breakout_market :: "Candle list" where
  "breakout_market = replicate 249 flat_candle @ [breakout_candle]"

section \<open>trading\_bot.py\<close>

text \<open>
  The values that the attributes of a \<open>BotConfig\<close> and the entries of an update map
  hold: \<open>None\<close>, booleans, integers, floats and strings. \<open>hasattr\<close> and \<open>setattr\<close> work
  on the attributes of the object whatever their declared types are, so the config is
  embedded as the dict of its instance attributes.
\<close>

datatype pyval = PyNone | PyBool bool | PyInt int | PyFloat real | PyStr string

type_synonym BotConfig = "string \<rightharpoonup> pyval"

text \<open>\<open>BotConfig()\<close>: the fields of the dataclass with their defaults.\<close>

definition BotConfig_init :: BotConfig where
  "BotConfig_init =
     [''dry_run'' \<mapsto> PyBool True, ''symbol'' \<mapsto> PyStr ''BTCUSDT'', ''timeframe'' \<mapsto> PyStr ''1h'',
      ''ema_fast'' \<mapsto> PyInt 9, ''ema_medium'' \<mapsto> PyInt 21, ''ema_slow'' \<mapsto> PyInt 200,
      ''min_confidence'' \<mapsto> PyFloat 60, ''min_rrr'' \<mapsto> PyFloat (15 / 10),
      ''equity'' \<mapsto> PyFloat 10000, ''leverage'' \<mapsto> PyInt 100,
      ''risk_percent'' \<mapsto> PyFloat 1, ''max_risk_percent'' \<mapsto> PyFloat 2,
      ''exchange'' \<mapsto> PyStr ''binance'', ''api_key'' \<mapsto> PyStr [], ''api_secret'' \<mapsto> PyStr [],
      ''sandbox'' \<mapsto> PyBool True, ''analysis_interval'' \<mapsto> PyInt 60,
      ''max_open_positions'' \<mapsto> PyInt 1]"

text \<open>
  \<open>hasattr(config, key)\<close>: an instance attribute, or the method \<open>to_dict\<close> of the class.
  The special attributes that every Python object has (\<open>__class__\<close>, \<open>__dict__\<close>,
  \<open>__doc__\<close> and so on, a set that depends on the version of Python) are not modelled;
  \<open>special_name\<close> recognises the names of that form.
\<close>

definition special_name :: "string \<Rightarrow> bool" where
  "special_name key = (starts_with ''__'' key \<and> starts_with ''__'' (rev key))"

definition hasattr_config :: "BotConfig \<Rightarrow> string \<Rightarrow> bool" where
  "hasattr_config cfg key = (cfg key \<noteq> None \<or> key = ''to_dict'')"

text \<open>The truth value of an object, as \<open>if x\<close> and \<open>x or y\<close> take it.\<close>

fun truthy :: "pyval \<Rightarrow> bool" where
  "truthy PyNone = False"
| "truthy (PyBool b) = b"
| "truthy (PyInt n) = (n \<noteq> 0)"
| "truthy (PyFloat x) = (x \<noteq> 0)"
| "truthy (PyStr s) = (s \<noteq> [])"

text \<open>
  \<open>n >= v\<close> for an \<open>int\<close> \<open>n\<close>: numbers compare by value (\<open>True\<close> is 1), \<open>None\<close> and
  strings raise \<open>TypeError\<close>.
\<close>

fun int_ge :: "int \<Rightarrow> pyval \<Rightarrow> py_error + bool" where
  "int_ge n (PyInt m) = Inr (n \<ge> m)"
| "int_ge n (PyBool b) = Inr (n \<ge> (if b then 1 else 0))"
| "int_ge n (PyFloat x) = Inr (real_of_int n \<ge> x)"
| "int_ge n PyNone = Inl TypeError"
| "int_ge n (PyStr s) = Inl TypeError"

text \<open>
  \<open>round(x, n)\<close>: the nearest multiple of \<open>10 ** -n\<close>, a tie going to the even one; in
  exact arithmetic.
\<close>

definition round_half_even :: "real \<Rightarrow> int" where
  "round_half_even x =
     (let f = \<lfloor>x\<rfloor>; d = x - real_of_int f
      in if d < 1 / 2 then f else if d > 1 / 2 then f + 1 else if even f then f else f + 1)"

definition py_round :: "real \<Rightarrow> nat \<Rightarrow> real" where
  "py_round x n = real_of_int (round_half_even (x * 10 ^ n)) / 10 ^ n"

datatype BotState = STOPPED | STARTING | RUNNING | ANALYZING | TRADING | STOPPING | BOT_ERROR

text \<open>The dict of \<open>TradeSignal.to_dict()\<close>, with the key \<open>'symbol'\<close> that the bot adds.\<close>

record SignalDict =
  d_action :: string
  d_entry_price :: real
  d_sl :: real
  d_tp :: real
  d_swing_point :: real
  d_ema_9 :: real
  d_ema_21 :: real
  d_ema_200 :: real
  d_risk_reward_ratio :: real
  d_confidence :: real
  d_timestamp :: datetime
  d_reason :: "reason_part list"
  d_symbol :: "string option"

definition to_dict :: "TradeSignal \<Rightarrow> SignalDict" where
  "to_dict s =
     \<lparr>d_action = action s, d_entry_price = py_round (entry_price s) 5,
      d_sl = py_round (stop_loss s) 5, d_tp = py_round (take_profit s) 5,
      d_swing_point = py_round (swing_point s) 5, d_ema_9 = py_round (ema_9 s) 5,
      d_ema_21 = py_round (ema_21 s) 5, d_ema_200 = py_round (ema_200 s) 5,
      d_risk_reward_ratio = py_round (risk_reward_ratio s) 2,
      d_confidence = py_round (confidence s) 2, d_timestamp = timestamp s,
      d_reason = reason s, d_symbol = None\<rparr>"

text \<open>
  The executor behind a \<open>TradeExecutor\<close>: the simulated one, or the \<open>CCXTExecutor\<close>, whose
  state is the exchange's.
\<close>

datatype BaseExecutor = DryRun DryRunExecutor | CCXT

text \<open>
  \<open>TradeExecutor.execute_signal\<close>. \<open>clock\<close> gives the readings of the clock during the
  call of the bot, \<open>live\<close> is what \<open>CCXTExecutor.execute_trade\<close> does with the order: it
  raises when not connected and returns the exchange's answer otherwise.
\<close>

definition execute_signal ::
  "BaseExecutor \<Rightarrow> (nat \<Rightarrow> datetime) \<Rightarrow> (py_error + OrderResult) \<Rightarrow> SignalDict \<Rightarrow>
   RiskManager option \<Rightarrow> py_error + OrderResult \<times> BaseExecutor" where
  "execute_signal ex clock live signal rm_opt =
     (let act = d_action signal; entry = d_entry_price signal; sl = d_sl signal;
          tp = d_tp signal;
          symbol = (case d_symbol signal of None \<Rightarrow> ''BTCUSDT'' | Some s \<Rightarrow> s);
          trade = (\<lambda>quantity.
            case ex of
              DryRun dry \<Rightarrow>
                (case execute_trade dry (clock 2) (clock 3) symbol act quantity entry
                        (Some sl) (Some tp) of
                   (result, dry') \<Rightarrow> Inr (result, DryRun dry'))
            | CCXT \<Rightarrow> (case live of Inl e \<Rightarrow> Inl e | Inr result \<Rightarrow> Inr (result, CCXT)))
      in case rm_opt of
           None \<Rightarrow> trade (1 / 1000)
         | Some rm \<Rightarrow>
             (case calculate_position_size rm symbol entry sl tp None of
                Inl e \<Rightarrow> Inl e
              | Inr position_size \<Rightarrow>
                  if \<not> is_valid position_size then
                    Inr (\<lparr>order_id = [], o_symbol = symbol, o_side = act,
                          order_type = ''MARKET'', status = REJECTED, o_entry_price = entry,
                          filled_price = None, o_quantity = 0, filled_quantity = 0,
                          o_stop_loss = Some sl, o_take_profit = Some tp,
                          o_timestamp = clock 2,
                          error_message =
                            Some (SizeValidationFailed (warning position_size))\<rparr>, ex)
                  else trade (lot_size position_size)))"

text \<open>The messages of the bot's log, with the values they interpolate, and their data.\<close>

datatype bot_message =
    Initialized bool                       \<comment> \<open>"TradingBot initialized - DRY RUN mode" (or LIVE)\<close>
  | StateChanged BotState BotState         \<comment> \<open>"State changed: old -> new"\<close>
  | MaxPositionsReached pyval              \<comment> \<open>"Max positions reached (n). Skipping signal."\<close>
  | PositionInvalid "warning_part list option"  \<comment> \<open>"Position size invalid: w"\<close>
  | PositionInfo real real                 \<comment> \<open>"Position: l lots | Risk: $r"\<close>
  | OrderFilled string                     \<comment> \<open>"ORDER FILLED: id"\<close>
  | OrderFailed "order_message option"     \<comment> \<open>"ORDER FAILED: m"\<close>
  | ConfigUpdated string pyval             \<comment> \<open>"Config updated: key = value"\<close>

datatype log_data =
    PositionData PositionSize              \<comment> \<open>\<open>position.to_dict()\<close>\<close>
  | OrderData OrderResult                  \<comment> \<open>\<open>result.to_dict()\<close>\<close>

record BotLog =
  l_timestamp :: datetime
  l_level :: string
  l_message :: bot_message
  l_data :: "log_data option"

record TradeRecord =
  tr_id :: string
  tr_symbol :: string
  tr_side :: string
  tr_entry_price :: real
  tr_exit_price :: "real option"
  tr_quantity :: real
  tr_stop_loss :: real
  tr_take_profit :: real
  tr_status :: string
  tr_pnl :: real
  tr_opened_at :: datetime
  tr_closed_at :: "datetime option"

text \<open>The dict \<open>self.stats\<close>.\<close>

record BotStats =
  total_signals :: int
  total_trades :: int
  winning_trades :: int
  losing_trades :: int
  total_pnl :: real
  started_at :: "datetime option"
  last_signal_at :: "datetime option"

text \<open>The dict that \<open>analyze_market_state\<close> returns, kept in \<open>self.last_analysis\<close>.\<close>

record MarketState =
  ms_current_price :: real
  ms_ema_9 :: real
  ms_ema_21 :: real
  ms_ema_200 :: real
  ms_trend :: string
  ms_swing_low :: real
  ms_swing_high :: real
  ms_price_vs_ema200 :: real
  ms_ema9_vs_ema21 :: string
  ms_ready_for_buy :: bool
  ms_ready_for_sell :: bool

datatype analysis = NotEnoughData | Market MarketState

text \<open>What the bot passes to its callbacks, in the order of the calls.\<close>

datatype event = LogEvent BotLog | StateEvent BotState | TradeEvent TradeRecord

text \<open>
  \<open>TradingBot\<close>. The callbacks \<open>on_log\<close>, \<open>on_state_change\<close> and \<open>on_trade\<close> are code of the
  caller: the model keeps whether each one is set and records in \<open>emitted\<close> what is
  passed to them; a callback that raises or that changes the bot is outside the model.
  \<open>running\<close> is the attribute \<open>_running\<close>, \<open>data_fetcher\<close> the source of the
  \<open>DataFetcher\<close>, \<open>executor\<close> the executor of the \<open>TradeExecutor\<close>.
\<close>

record TradingBot =
  config :: BotConfig
  state :: BotState
  running :: bool
  on_log :: bool
  on_state_change :: bool
  on_trade :: bool
  strategy :: "StrategyEngine option"
  risk_manager :: "RiskManager option"
  executor :: "BaseExecutor option"
  data_fetcher :: "string option"
  logs :: "BotLog list"
  trade_history :: "TradeRecord list"
  open_positions :: "TradeRecord list"
  current_signal :: "TradeSignal option"
  last_analysis :: "analysis option"
  stats :: BotStats
  emitted :: "event list"

text \<open>\<open>TradingBot._log\<close>: the log keeps its last 1000 entries.\<close>

definition bot_log ::
  "TradingBot \<Rightarrow> datetime \<Rightarrow> string \<Rightarrow> bot_message \<Rightarrow> log_data option \<Rightarrow> TradingBot" where
  "bot_log b now level message data =
     (let log_entry = \<lparr>l_timestamp = now, l_level = level, l_message = message,
                        l_data = data\<rparr>;
          logs1 = logs b @ [log_entry];
          logs2 = (if length logs1 > 1000 then py_slice logs1 (Some (- 1000)) None
                   else logs1)
      in b\<lparr>logs := logs2,
           emitted := (if on_log b then emitted b @ [LogEvent log_entry] else emitted b)\<rparr>)"

text \<open>\<open>TradingBot._set_state\<close>.\<close>

definition set_state :: "TradingBot \<Rightarrow> datetime \<Rightarrow> BotState \<Rightarrow> TradingBot" where
  "set_state b now new_state =
     (let old_state = state b;
          b1 = bot_log (b\<lparr>state := new_state\<rparr>) now ''INFO''
                 (StateChanged old_state new_state) None
      in if on_state_change b1 then b1\<lparr>emitted := emitted b1 @ [StateEvent new_state]\<rparr>
         else b1)"

text \<open>\<open>TradingBot.__init__\<close>; the three flags say which callbacks are given.\<close>

definition TradingBot_init ::
  "BotConfig \<Rightarrow> bool \<Rightarrow> bool \<Rightarrow> bool \<Rightarrow> datetime \<Rightarrow> py_error + TradingBot" where
  "TradingBot_init cfg log_cb state_cb trade_cb now =
     (let b = \<lparr>config = cfg, state = STOPPED, running = False, on_log = log_cb,
               on_state_change = state_cb, on_trade = trade_cb, strategy = None,
               risk_manager = None, executor = None, data_fetcher = None, logs = [],
               trade_history = [], open_positions = [], current_signal = None,
               last_analysis = None,
               stats = \<lparr>total_signals = 0, total_trades = 0, winning_trades = 0,
                        losing_trades = 0, total_pnl = 0, started_at = None,
                        last_signal_at = None\<rparr>,
               emitted = []\<rparr>
      in case cfg ''dry_run'' of
           None \<Rightarrow> Inl AttributeError
         | Some v \<Rightarrow> Inr (bot_log b now ''INFO'' (Initialized (truthy v)) None))"

text \<open>
  The call \<open>calculate_position_size(symbol=config.symbol, ..., risk_percent=
  config.risk_percent)\<close> of \<open>_execute_signal\<close>, whose two config values can be of any type:
  a \<open>risk_percent\<close> that is a string fails at \<open>risk_percent > self.max_risk_percent\<close>, a
  \<open>symbol\<close> that is not a string at \<open>symbol.upper()\<close>.
\<close>

fun number_or_none :: "pyval \<Rightarrow> py_error + real option" where
  "number_or_none PyNone = Inr None"
| "number_or_none (PyBool b) = Inr (Some (if b then 1 else 0))"
| "number_or_none (PyInt n) = Inr (Some (real_of_int n))"
| "number_or_none (PyFloat x) = Inr (Some x)"
| "number_or_none (PyStr s) = Inl TypeError"

definition size_position ::
  "RiskManager \<Rightarrow> pyval \<Rightarrow> real \<Rightarrow> real \<Rightarrow> real \<Rightarrow> pyval \<Rightarrow> py_error + string \<times> PositionSize"
where
  "size_position rm symbol entry sl tp risk =
     (case number_or_none risk of
        Inl e \<Rightarrow> Inl e
      | Inr rp \<Rightarrow>
          (case symbol of
             PyStr s \<Rightarrow>
               (case calculate_position_size rm s entry sl tp rp of
                  Inl e \<Rightarrow> Inl e
                | Inr position \<Rightarrow> Inr (s, position))
           | _ \<Rightarrow> Inl AttributeError))"

text \<open>
  \<open>TradingBot._execute_signal\<close>. The result is the exception that ends the call, if one
  does, and the bot as the call leaves it.
\<close>

definition bot_execute_signal ::
  "TradingBot \<Rightarrow> (nat \<Rightarrow> datetime) \<Rightarrow> (py_error + OrderResult) \<Rightarrow> TradeSignal \<Rightarrow>
   py_error option \<times> TradingBot" where
  "bot_execute_signal b clock live signal =
     (case config b ''max_open_positions'' of
        None \<Rightarrow> (Some AttributeError, b)
      | Some cap \<Rightarrow>
     (case int_ge (int (length (open_positions b))) cap of
        Inl e \<Rightarrow> (Some e, b)
      | Inr True \<Rightarrow> (None, bot_log b (clock 0) ''WARNING'' (MaxPositionsReached cap) None)
      | Inr False \<Rightarrow>
     (let b1 = set_state b (clock 0) TRADING in
      case (risk_manager b1, config b1 ''symbol'', config b1 ''risk_percent'') of
        (Some rm, Some symbol, Some risk) \<Rightarrow>
          (case size_position rm symbol (entry_price signal) (stop_loss signal)
                  (take_profit signal) risk of
             Inl e \<Rightarrow> (Some e, b1)
           | Inr (sname, position) \<Rightarrow>
               if \<not> is_valid position then
                 (None, bot_log b1 (clock 1) ''WARNING''
                          (PositionInvalid (warning position)) None)
               else
                 let b2 = bot_log b1 (clock 1) ''INFO''
                            (PositionInfo (lot_size position) (risk_amount position))
                            (Some (PositionData position));
                     signal_dict = (to_dict signal)\<lparr>d_symbol := Some sname\<rparr>
                 in (case executor b2 of
                      None \<Rightarrow> (Some AttributeError, b2)
                    | Some ex \<Rightarrow>
                        (case execute_signal ex clock live signal_dict (risk_manager b2) of
                           Inl e \<Rightarrow> (Some e, b2)
                         | Inr (result, ex') \<Rightarrow>
                             let b3 = b2\<lparr>executor := Some ex'\<rparr> in
                             if status result = FILLED then
                               let b4 = bot_log b3 (clock 4) ''INFO''
                                          (OrderFilled (order_id result))
                                          (Some (OrderData result));
                                   trade =
                                     \<lparr>tr_id = order_id result, tr_symbol = sname,
                                      tr_side = action signal,
                                      tr_entry_price =
                                        (case filled_price result of
                                           None \<Rightarrow> entry_price signal
                                         | Some p \<Rightarrow>
                                             if p = 0 then entry_price signal else p),
                                      tr_exit_price = None,
                                      tr_quantity = filled_quantity result,
                                      tr_stop_loss = stop_loss signal,
                                      tr_take_profit = take_profit signal,
                                      tr_status = ''open'', tr_pnl = 0,
                                      tr_opened_at = clock 5, tr_closed_at = None\<rparr>;
                                   b5 = b4\<lparr>open_positions := open_positions b4 @ [trade],
                                           stats := (stats b4)
                                             \<lparr>total_trades := total_trades (stats b4) + 1\<rparr>\<rparr>
                               in (None,
                                   if on_trade b5
                                   then b5\<lparr>emitted := emitted b5 @ [TradeEvent trade]\<rparr>
                                   else b5)
                             else
                               (None, bot_log b3 (clock 4) ''ERROR''
                                        (OrderFailed (error_message result))
                                        (Some (OrderData result))))))
      | _ \<Rightarrow> (Some AttributeError, b1))))"

text \<open>
  \<open>TradingBot.update_config\<close>, over the items of \<open>updates\<close> in their order; \<open>now_at i\<close> is
  the reading of the clock when the item at position \<open>i\<close> is logged. The result is \<open>None\<close>
  when a key has the form of a special attribute name: what \<open>hasattr\<close> and \<open>setattr\<close> do
  with such a name is not modelled.
\<close>

fun update_items ::
  "TradingBot \<Rightarrow> (nat \<Rightarrow> datetime) \<Rightarrow> nat \<Rightarrow> (string \<times> pyval) list \<Rightarrow> TradingBot option" where
  "update_items b now_at i [] = Some b"
| "update_items b now_at i ((key, v) # rest) =
     (if special_name key then None
      else if hasattr_config (config b) key then
        update_items
          (bot_log (b\<lparr>config := (config b)(key \<mapsto> v)\<rparr>) (now_at i) ''INFO''
             (ConfigUpdated key v) None)
          now_at (i + 1) rest
      else update_items b now_at (i + 1) rest)"

definition update_config ::
  "TradingBot \<Rightarrow> (nat \<Rightarrow> datetime) \<Rightarrow> (string \<times> pyval) list \<Rightarrow> TradingBot option" where
  "update_config b now_at updates = update_items b now_at 0 updates"


text \<open>
  The log entries that \<open>update_config\<close> writes: one for each item whose key is an
  attribute of the config, in the order of the items.
\<close>

fun update_entries ::
  "BotConfig \<Rightarrow> (nat \<Rightarrow> datetime) \<Rightarrow> nat \<Rightarrow> (string \<times> pyval) list \<Rightarrow> BotLog list" where
  "update_entries cfg now_at i [] = []"
| "update_entries cfg now_at i ((key, v) # rest) =
     (if hasattr_config cfg key
      then [\<lparr>l_timestamp = now_at i, l_level = ''INFO'', l_message = ConfigUpdated key v,
             l_data = None\<rparr>]
      else []) @ update_entries cfg now_at (i + 1) rest"

text \<open>
  A bot for the examples: the default config on the symbol XAUUSD, an account of 10000
  at leverage 100, the simulated executor; and the same bot with one position open. The
  signal buys at 100 with the stop at 80.
\<close>

definition example_clock :: "nat \<Rightarrow> datetime" where
  "example_clock i = 100 + i"

definition example_bot :: TradingBot where
  "example_bot =
     \<lparr>config = BotConfig_init(''symbol'' \<mapsto> PyStr ''XAUUSD''), state = RUNNING,
      running = True, on_log = True, on_state_change = False, on_trade = True,
      strategy = Some (StrategyEngine_init 9 21 200 10 (15 / 10) 60),
      risk_manager = Some (RiskManager_init 10000 100 ''standard'' 2 1 ''USD''),
      executor = Some (DryRun (DryRunExecutor_init 10000)),
      data_fetcher = Some ''binance'', logs = [], trade_history = [], open_positions = [],
      current_signal = None, last_analysis = None,
      stats = \<lparr>total_signals = 0, total_trades = 0, winning_trades = 0,
               losing_trades = 0, total_pnl = 0, started_at = Some 0,
               last_signal_at = None\<rparr>,
      emitted = []\<rparr>"

definition example_trade :: TradeRecord where
  "example_trade =
     \<lparr>tr_id = ''DRY_000001'', tr_symbol = ''XAUUSD'', tr_side = ''BUY'',
      tr_entry_price = 100, tr_exit_price = None, tr_quantity = 1 / 20, tr_stop_loss = 80,
      tr_take_profit = 130, tr_status = ''open'', tr_pnl = 0, tr_opened_at = 105,
      tr_closed_at = None\<rparr>"


definition example_signal :: TradeSignal where
  "example_signal =
     \<lparr>action = ''BUY'', entry_price = 100, stop_loss = 80, take_profit = 130,
      swing_point = 80, ema_9 = 99, ema_21 = 98, ema_200 = 90, risk_reward_ratio = 15 / 10,
      confidence = 75, timestamp = 99,
      reason = [GoldenCross, AboveEMA200 100 90, SLSwingLow 80, TPWithRRR (15 / 10),
                ConfidenceLevel 75]\<rparr>"

text \<open>The instance attributes that the loop of \<open>update_config\<close> leaves.\<close>

fun set_attributes :: "BotConfig \<Rightarrow> (string \<times> pyval) list \<Rightarrow> BotConfig" where
  "set_attributes cfg [] = cfg"
| "set_attributes cfg ((key, v) # rest) =
     set_attributes (if hasattr_config cfg key then cfg(key \<mapsto> v) else cfg) rest"

section \<open>Properties of the position sizer\<close>

lemma lot_multiplier_init_pos: "0 < lot_multiplier (RiskManager_init e l t m d c)"
  by (simp add: RiskManager_init_def dict_get_def LOT_SIZES_def)

lemma pip_size_of_pos: "0 < pip_size_of s"
  by (simp add: pip_size_of_def Let_def)

lemma PIP_VALUES_pos: "0 < dict_get PIP_VALUES k 10"
  by (simp add: dict_get_def PIP_VALUES_def)

lemma get_pip_value_pos: "0 < get_pip_value (RiskManager_init e l t m d c) s 1"
  using lot_multiplier_init_pos [of e l t m d c] PIP_VALUES_pos
  by (simp add: get_pip_value_def Let_def)

lemma calculate_pips_same: "calculate_pips s e e = 0"
  by (simp add: calculate_pips_def)

lemma calculate_pips_pos: "e \<noteq> sl \<Longrightarrow> 0 < calculate_pips s e sl"
  using pip_size_of_pos [of s] by (simp add: calculate_pips_def)

text \<open>
  A manager built by the constructor with a non-zero leverage always gets a result:
  the divisions of the sizing formula cannot fail.
\<close>

lemma calculate_position_size_total:
  "lev \<noteq> 0 \<Longrightarrow>
   \<exists>r. calculate_position_size (RiskManager_init e lev t m d c) s en sl tp rp = Inr r"
  using get_pip_value_pos [of e lev t m d c s]
  by (cases "en = sl")
     (auto simp add: calculate_position_size_def Let_def calculate_pips_same
      RiskManager_init_def dest: calculate_pips_pos)

text \<open>The account of the examples: \<open>RiskManager(equity=10000.0, leverage=100)\<close>.\<close>

lemma example_manager:
  "RiskManager_init 10000 100 ''standard'' 2 1 ''USD'' =
     \<lparr>equity = 10000, leverage = 100, account_type = ''standard'',
      max_risk_percent = 2, default_risk_percent = 1,
      account_currency = ''USD'', lot_multiplier = 100000\<rparr>"
  by (simp add: RiskManager_init_def dict_get_def LOT_SIZES_def lower_def lower_char_def)

lemma pip_size_of_XAUUSD: "pip_size_of ''XAUUSD'' = 1 / 10"
  by (simp add: pip_size_of_def upper_def upper_char_def)

lemma get_pip_value_XAUUSD:
  "get_pip_value (RiskManager_init 10000 100 ''standard'' 2 1 ''USD'') ''XAUUSD'' 1 = 10"
  by (simp add: example_manager get_pip_value_def upper_def upper_char_def remove_char_def
      dict_get_def PIP_VALUES_def)

lemma sizing_XAUUSD:
  "calculate_position_size (RiskManager_init 10000 100 ''standard'' 2 1 ''USD'')
     ''XAUUSD'' 2050 2040 2065 (Some 1) =
   Inr \<lparr>lot_size = 1 / 10, units = 10000, risk_amount = 100, risk_percent = 1,
        stop_loss_pips = 100, potential_loss = 100, potential_profit = 150,
        margin_required = 205000, is_valid = False,
        warning = Some [MarginExceeded 205000 10000]\<rparr>"
  by (simp add: calculate_position_size_def calculate_pips_def pip_size_of_XAUUSD
      get_pip_value_XAUUSD py_int_def Let_def)
     (simp add: example_manager)

text \<open>
  Claim C4. When the stop price equals the entry price, \<open>calculate_position_size\<close>
  returns (it does not raise) an invalid result with lot size 0 and 0 units.
\<close>

theorem stop_equals_entry_invalid:
  "\<exists>r. calculate_position_size rm symbol entry entry tp rp = Inr r \<and>
       \<not> is_valid r \<and> lot_size r = 0 \<and> units r = 0"
  by (simp add: calculate_position_size_def Let_def calculate_pips_same)

theorem stop_equals_entry_invalid_witness:
  "\<exists>r. calculate_position_size (RiskManager_init 10000 100 ''standard'' 2 1 ''USD'')
         ''XAUUSD'' 2050 2050 2065 (Some 1) = Inr r \<and>
       \<not> is_valid r \<and> lot_size r = 0 \<and> units r = 0"
  by (rule stop_equals_entry_invalid)

text \<open>
  Claim C3, as stated: for the request equity 10000, leverage 100, XAUUSD, entry 2050,
  stop 2040, risk 1 percent, the lot size is about 0.10, the required margin is about
  20500 and the result is invalid. The code computes the margin from the units
  (\<open>int(lot_size * 100000) = 10000\<close>), which gives \<open>10000 * 2050 / 100 = 205000\<close>,
  ten times the figure of the claim.
\<close>

theorem margin_example_counterexample:
  "(case calculate_position_size (RiskManager_init 10000 100 ''standard'' 2 1 ''USD'')
           ''XAUUSD'' 2050 2040 2065 (Some 1) of
      Inl e \<Rightarrow> False
    | Inr r \<Rightarrow> lot_size r = 1 / 10 \<and> units r = 10000 \<and> margin_required r = 205000 \<and>
              \<not> \<bar>margin_required r - 20500\<bar> \<le> 20500 / 2)"
  by (simp add: sizing_XAUUSD)

text \<open>
  Claim C3, amended. Whenever the sizing reaches the margin check (the stop distance is
  not zero) and the required margin \<open>units * entry / leverage\<close> exceeds the equity, the
  result is invalid and its warning starts with the margin message. For the request
  equity 10000, leverage 100, XAUUSD, entry 2050, stop 2040, risk 1 percent, the lot
  size is 0.10, the required margin is 205000, more than the equity, and the result
  is invalid.
\<close>

theorem margin_exceeds_equity_invalid:
  "(calculate_position_size rm symbol entry sl tp rp_opt = Inr r \<and> entry \<noteq> sl \<and>
     margin_required r > equity rm \<longrightarrow>
      \<not> is_valid r \<and>
      (\<exists>rest. warning r = Some (MarginExceeded (margin_required r) (equity rm) # rest)) \<and>
      margin_required r = real_of_int (units r) * entry / real_of_int (leverage rm)) \<and>
   calculate_position_size (RiskManager_init 10000 100 ''standard'' 2 1 ''USD'')
     ''XAUUSD'' 2050 2040 2065 (Some 1) =
   Inr \<lparr>lot_size = 1 / 10, units = 10000, risk_amount = 100, risk_percent = 1,
        stop_loss_pips = 100, potential_loss = 100, potential_profit = 150,
        margin_required = 205000, is_valid = False,
        warning = Some [MarginExceeded 205000 10000]\<rparr>"
proof (rule conjI)
  show "calculate_position_size rm symbol entry sl tp rp_opt = Inr r \<and> entry \<noteq> sl \<and>
      margin_required r > equity rm \<longrightarrow>
      \<not> is_valid r \<and>
      (\<exists>rest. warning r = Some (MarginExceeded (margin_required r) (equity rm) # rest)) \<and>
      margin_required r = real_of_int (units r) * entry / real_of_int (leverage rm)"
  proof (intro impI, elim conjE)
    assume res: "calculate_position_size rm symbol entry sl tp rp_opt = Inr r"
      and ne: "entry \<noteq> sl" and gt: "margin_required r > equity rm"
    from ne have pos: "\<not> calculate_pips symbol entry sl \<le> 0"
      using calculate_pips_pos [of entry sl symbol] by simp
    from res pos gt show "\<not> is_valid r \<and>
        (\<exists>rest. warning r = Some (MarginExceeded (margin_required r) (equity rm) # rest)) \<and>
        margin_required r = real_of_int (units r) * entry / real_of_int (leverage rm)"
      unfolding calculate_position_size_def Let_def
      by (auto split: if_splits)
  qed
next
  show "calculate_position_size (RiskManager_init 10000 100 ''standard'' 2 1 ''USD'')
     ''XAUUSD'' 2050 2040 2065 (Some 1) =
   Inr \<lparr>lot_size = 1 / 10, units = 10000, risk_amount = 100, risk_percent = 1,
        stop_loss_pips = 100, potential_loss = 100, potential_profit = 150,
        margin_required = 205000, is_valid = False,
        warning = Some [MarginExceeded 205000 10000]\<rparr>"
    by (rule sizing_XAUUSD)
qed

theorem margin_exceeds_equity_invalid_witness:
  "calculate_position_size (RiskManager_init 10000 100 ''standard'' 2 1 ''USD'')
     ''XAUUSD'' 2050 2040 2065 (Some 1) =
   Inr \<lparr>lot_size = 1 / 10, units = 10000, risk_amount = 100, risk_percent = 1,
        stop_loss_pips = 100, potential_loss = 100, potential_profit = 150,
        margin_required = 205000, is_valid = False,
        warning = Some [MarginExceeded 205000 10000]\<rparr> \<and>
   (2050::real) \<noteq> 2040 \<and>
   (205000::real) > equity (RiskManager_init 10000 100 ''standard'' 2 1 ''USD'') \<and>
   (205000::real) =
     real_of_int 10000 * 2050 /
     real_of_int (leverage (RiskManager_init 10000 100 ''standard'' 2 1 ''USD''))"
  using margin_exceeds_equity_invalid
    [of "RiskManager_init 10000 100 ''standard'' 2 1 ''USD''" "''XAUUSD''" 2050 2040 2065
        "Some 1"
        "\<lparr>lot_size = 1 / 10, units = 10000, risk_amount = 100, risk_percent = 1,
          stop_loss_pips = 100, potential_loss = 100, potential_profit = 150,
          margin_required = 205000, is_valid = False,
          warning = Some [MarginExceeded 205000 10000]\<rparr>"]
  by (simp add: example_manager)

section \<open>Properties of the simulated executor\<close>

lemma find_id_None: "position_id \<notin> p_id ` set ps \<Longrightarrow> find (\<lambda>p. p_id p = position_id) ps = None"
  by (induction ps) auto

lemma find_id_Some:
  "position_id \<in> p_id ` set ps \<Longrightarrow>
   \<exists>p. find (\<lambda>q. p_id q = position_id) ps = Some p \<and> p \<in> set ps \<and> p_id p = position_id"
  by (induction ps) auto

lemma distinct_ids_remove1:
  "distinct (map p_id ps) \<Longrightarrow> p \<in> set ps \<Longrightarrow> p_id p \<notin> p_id ` set (remove1 p ps)"
proof
  assume d: "distinct (map p_id ps)" and m: "p \<in> set ps"
    and i: "p_id p \<in> p_id ` set (remove1 p ps)"
  from d have dp: "distinct ps" and inj: "inj_on p_id (set ps)"
    by (simp_all add: distinct_map)
  from i obtain q where q: "q \<in> set (remove1 p ps)" and e: "p_id q = p_id p"
    by auto
  from q dp have "q \<in> set ps" and "q \<noteq> p"
    by simp_all
  with inj m e show False
    by (auto dest: inj_onD)
qed

lemma format_06d_1: "format_06d 1 = ''000001''"
  by (simp add: format_06d_def zero_pad_def decimal.simps digit_char_def eval_nat_numeral)

text \<open>
  Claim C5. Closing a position whose id is in the ledger returns \<open>FILLED\<close>, changes the
  balance by exactly \<open>(x - entry) * quantity\<close> for a BUY position and by
  \<open>(entry - x) * quantity\<close> for a SELL position, and removes the position from the
  ledger (the first one with the id; the id itself is gone when ids are distinct, as
  the ids \<open>execute_trade\<close> issues are). Closing an id that is not in the ledger returns
  \<open>ERROR\<close> and leaves the whole executor, balance and positions included, unchanged.
\<close>

theorem close_position_effect:
  "(position_id \<in> p_id ` set (positions ex) \<longrightarrow>
      (\<exists>p. find (\<lambda>q. p_id q = position_id) (positions ex) = Some p \<and>
           p \<in> set (positions ex) \<and> p_id p = position_id \<and>
           status (fst (close_position ex now position_id x)) = FILLED \<and>
           (p_side p = ''BUY'' \<longrightarrow>
              balance (snd (close_position ex now position_id x)) =
              balance ex + (x - p_entry_price p) * p_quantity p) \<and>
           (p_side p = ''SELL'' \<longrightarrow>
              balance (snd (close_position ex now position_id x)) =
              balance ex + (p_entry_price p - x) * p_quantity p) \<and>
           positions (snd (close_position ex now position_id x)) =
             remove1 p (positions ex) \<and>
           length (positions (snd (close_position ex now position_id x))) + 1 =
             length (positions ex) \<and>
           (distinct (map p_id (positions ex)) \<longrightarrow>
              position_id \<notin> p_id ` set (positions (snd (close_position ex now position_id x)))))) \<and>
   (position_id \<notin> p_id ` set (positions ex) \<longrightarrow>
      status (fst (close_position ex now position_id x)) = ERROR \<and>
      snd (close_position ex now position_id x) = ex)"
proof (rule conjI)
  show "position_id \<in> p_id ` set (positions ex) \<longrightarrow>
      (\<exists>p. find (\<lambda>q. p_id q = position_id) (positions ex) = Some p \<and>
           p \<in> set (positions ex) \<and> p_id p = position_id \<and>
           status (fst (close_position ex now position_id x)) = FILLED \<and>
           (p_side p = ''BUY'' \<longrightarrow>
              balance (snd (close_position ex now position_id x)) =
              balance ex + (x - p_entry_price p) * p_quantity p) \<and>
           (p_side p = ''SELL'' \<longrightarrow>
              balance (snd (close_position ex now position_id x)) =
              balance ex + (p_entry_price p - x) * p_quantity p) \<and>
           positions (snd (close_position ex now position_id x)) =
             remove1 p (positions ex) \<and>
           length (positions (snd (close_position ex now position_id x))) + 1 =
             length (positions ex) \<and>
           (distinct (map p_id (positions ex)) \<longrightarrow>
              position_id \<notin> p_id ` set (positions (snd (close_position ex now position_id x)))))"
  proof
    assume "position_id \<in> p_id ` set (positions ex)"
    then obtain p where f: "find (\<lambda>q. p_id q = position_id) (positions ex) = Some p"
      and m: "p \<in> set (positions ex)" and i: "p_id p = position_id"
      using find_id_Some by blast
    have len: "length (remove1 p (positions ex)) + 1 = length (positions ex)"
      using m by (simp add: length_remove1) (cases "positions ex"; simp)
    have d: "distinct (map p_id (positions ex)) \<longrightarrow>
               position_id \<notin> p_id ` set (remove1 p (positions ex))"
      using distinct_ids_remove1 [of "positions ex" p] m i by blast
    show "\<exists>p. find (\<lambda>q. p_id q = position_id) (positions ex) = Some p \<and>
           p \<in> set (positions ex) \<and> p_id p = position_id \<and>
           status (fst (close_position ex now position_id x)) = FILLED \<and>
           (p_side p = ''BUY'' \<longrightarrow>
              balance (snd (close_position ex now position_id x)) =
              balance ex + (x - p_entry_price p) * p_quantity p) \<and>
           (p_side p = ''SELL'' \<longrightarrow>
              balance (snd (close_position ex now position_id x)) =
              balance ex + (p_entry_price p - x) * p_quantity p) \<and>
           positions (snd (close_position ex now position_id x)) =
             remove1 p (positions ex) \<and>
           length (positions (snd (close_position ex now position_id x))) + 1 =
             length (positions ex) \<and>
           (distinct (map p_id (positions ex)) \<longrightarrow>
              position_id \<notin> p_id ` set (positions (snd (close_position ex now position_id x))))"
      using f m i len d
      by (intro exI [of _ p]) (simp add: close_position_def Let_def)
  qed
next
  show "position_id \<notin> p_id ` set (positions ex) \<longrightarrow>
      status (fst (close_position ex now position_id x)) = ERROR \<and>
      snd (close_position ex now position_id x) = ex"
    using find_id_None [of position_id "positions ex"]
    by (simp add: close_position_def)
qed

text \<open>
  Claim C8. When \<open>execute_trade\<close> rejects an order (status \<open>REJECTED\<close>, which happens
  when the margin exceeds the free balance), the balance, the open positions and the
  order history are unchanged; only the order counter is incremented.
\<close>

theorem rejected_trade_frame:
  "status (fst (execute_trade ex opened now symbol side quantity entry sl tp)) = REJECTED \<longrightarrow>
     snd (execute_trade ex opened now symbol side quantity entry sl tp) =
       ex\<lparr>order_counter := order_counter ex + 1\<rparr> \<and>
     balance (snd (execute_trade ex opened now symbol side quantity entry sl tp)) = balance ex \<and>
     positions (snd (execute_trade ex opened now symbol side quantity entry sl tp)) =
       positions ex \<and>
     order_history (snd (execute_trade ex opened now symbol side quantity entry sl tp)) =
       order_history ex \<and>
     order_counter (snd (execute_trade ex opened now symbol side quantity entry sl tp)) =
       order_counter ex + 1 \<and>
     quantity * entry * (1 / 100) > balance ex - sum_list (map p_margin (positions ex))"
  by (simp add: execute_trade_def Let_def get_balance_def)


theorem close_position_effect_witness:
  "''DRY_000001'' \<in> p_id ` set (positions example_executor) \<and>
   status (fst (close_position example_executor 5 ''DRY_000001'' 110)) = FILLED \<and>
   p_side example_position = ''BUY'' \<and>
   balance (snd (close_position example_executor 5 ''DRY_000001'' 110)) =
     10000 + (110 - 100) * 2 \<and>
   positions (snd (close_position example_executor 5 ''DRY_000001'' 110)) = [] \<and>
   ''DRY_000009'' \<notin> p_id ` set (positions example_executor) \<and>
   status (fst (close_position example_executor 5 ''DRY_000009'' 110)) = ERROR \<and>
   snd (close_position example_executor 5 ''DRY_000009'' 110) = example_executor"
  using close_position_effect [of "''DRY_000001''" example_executor 5 110]
    close_position_effect [of "''DRY_000009''" example_executor 5 110]
  by (simp add: example_executor_def example_position_def)

theorem rejected_trade_frame_witness:
  "status (fst (execute_trade example_executor 7 8 ''BTCUSDT'' ''BUY'' 1000 2000 None None)) =
     REJECTED \<and>
   snd (execute_trade example_executor 7 8 ''BTCUSDT'' ''BUY'' 1000 2000 None None) =
     example_executor\<lparr>order_counter := 2\<rparr> \<and>
   balance (snd (execute_trade example_executor 7 8 ''BTCUSDT'' ''BUY'' 1000 2000 None None)) =
     10000 \<and>
   positions (snd (execute_trade example_executor 7 8 ''BTCUSDT'' ''BUY'' 1000 2000 None None)) =
     [example_position] \<and>
   order_history
     (snd (execute_trade example_executor 7 8 ''BTCUSDT'' ''BUY'' 1000 2000 None None)) = []"
proof -
  have r: "status (fst (execute_trade example_executor 7 8 ''BTCUSDT'' ''BUY'' 1000 2000
             None None)) = REJECTED"
    by (simp add: execute_trade_def Let_def get_balance_def example_executor_def
        example_position_def)
  show ?thesis
    using r rejected_trade_frame
      [of example_executor 7 8 "''BTCUSDT''" "''BUY''" 1000 2000 None None]
    by (simp add: example_executor_def)
qed

text \<open>An accepted order, for comparison: it is filled, recorded and given the next id.\<close>

lemma accepted_trade_example:
  "execute_trade (DryRunExecutor_init 10000) 7 8 ''BTCUSDT'' ''BUY'' 2 100 None None =
     (\<lparr>order_id = ''DRY_000001'', o_symbol = ''BTCUSDT'', o_side = ''BUY'',
       order_type = ''MARKET'', status = FILLED, o_entry_price = 100,
       filled_price = Some 100, o_quantity = 2, filled_quantity = 2, o_stop_loss = None,
       o_take_profit = None, o_timestamp = 8, error_message = None\<rparr>,
      \<lparr>balance = 10000,
       positions = [example_position\<lparr>p_opened_at := 7\<rparr>],
       order_history =
         [\<lparr>order_id = ''DRY_000001'', o_symbol = ''BTCUSDT'', o_side = ''BUY'',
           order_type = ''MARKET'', status = FILLED, o_entry_price = 100,
           filled_price = Some 100, o_quantity = 2, filled_quantity = 2, o_stop_loss = None,
           o_take_profit = None, o_timestamp = 8, error_message = None\<rparr>],
       order_counter = 1, is_connected = False\<rparr>)"
  by (simp add: execute_trade_def Let_def get_balance_def DryRunExecutor_init_def
      example_position_def format_06d_1)

section \<open>Properties of the signal engine\<close>

lemma ebind_simps [simp]:
  "ebind (Inl e) f = Inl e"
  "ebind (Inr x) f = f x"
  by (simp_all add: ebind_def)

lemma map_sum_ebind:
  "map_sum id h (ebind m f) = ebind m (\<lambda>x. map_sum id h (f x))"
  by (cases m) simp_all

lemma ebind_cong_fun: "(\<And>x. f x = g x) \<Longrightarrow> ebind m f = ebind m g"
  by (cases m) simp_all

lemma build_signal_timestamp:
  "build_signal eng now2 act r0 lows highs c e9 e21 e200 vr =
   map_sum id (map_option (\<lambda>s. s\<lparr>timestamp := now2\<rparr>))
     (build_signal eng now1 act r0 lows highs c e9 e21 e200 vr)"
  unfolding build_signal_def Let_def map_sum_ebind
  by (intro ebind_cong_fun) (auto simp: map_sum_ebind intro!: ebind_cong_fun)

lemma build_signal_prev:
  "build_signal (eng\<lparr>prev_ema_fast := a, prev_ema_medium := b\<rparr>) now act r0 lows highs c e9
     e21 e200 vr =
   build_signal eng now act r0 lows highs c e9 e21 e200 vr"
  unfolding build_signal_def Let_def by (simp cong: if_cong)

text \<open>
  Small runs of the parts of the engine: an EMA of period 3 (zeros before the first
  average), an EMA of a series shorter than the period, the last swing low of a series,
  and the signal of the example market: a golden cross above the slow EMA, with the stop
  under the lowest low of the last 125 candles.
\<close>

lemma calculate_ema_example: "calculate_ema [1, 2, 3, 4, 5] 3 = Inr [0, 0, 2, 3, 4]"
  by code_simp

lemma calculate_ema_short: "calculate_ema [1, 2] 3 = Inr []"
  by code_simp

lemma find_swing_low_example: "find_swing_low [5, 4, 3, 4, 5, 2, 6] 1 = Inr 2"
  by code_simp

lemma breakout_signal:
  "get_signal slow_engine 7 breakout_market =
   Inr (Some \<lparr>action = ''BUY'', entry_price = 110, stop_loss = 98901 / 1000,
     take_profit = 110 + (110 - 98901 / 1000) * (15 / 10), swing_point = 99,
     ema_9 = 100 + 20 / 249, ema_21 = 100 + 20 / 250, ema_200 = 100 + 20 / 241,
     risk_reward_ratio = 15 / 10, confidence = 50, timestamp = 7,
     reason = [GoldenCross, AboveEMA200 110 (100 + 20 / 241), SLSwingLow 99,
               TPWithRRR (15 / 10), ConfidenceLevel 50]\<rparr>)"
  by code_simp

text \<open>
  Claim C2. On a candle list shorter than \<open>max(ema_slow + 10, 250)\<close>, \<open>get_signal\<close>
  returns \<open>None\<close>: it returns, and what it returns is not an exception, whatever the
  candles hold and whatever the parameters of the engine are.
\<close>

theorem short_window_no_signal:
  "int (length ohlcv_data) < max (ema_slow eng + 10) 250 \<Longrightarrow>
   get_signal eng now ohlcv_data = Inr None"
  by (simp add: get_signal_def Let_def)

theorem short_window_no_signal_witness:
  "int (length (replicate 249 flat_candle)) < max (ema_slow slow_engine + 10) 250 \<and>
   get_signal slow_engine 7 (replicate 249 flat_candle) = Inr None"
  using short_window_no_signal [of "replicate 249 flat_candle" slow_engine 7]
  by (simp add: slow_engine_def StrategyEngine_init_def)

text \<open>
  Claim C6. \<open>get_signal\<close> reads the candles, the parameters of the engine and, for the
  \<open>timestamp\<close> of the signal, the clock; it assigns no attribute of the engine. Two
  invocations on the same candles and parameters, at the clock readings \<open>now1\<close> and
  \<open>now2\<close>, therefore end the same way: both raise the same exception, both return
  \<open>None\<close>, or both return a signal, and the second signal is the first one with the
  \<open>timestamp\<close> \<open>now2\<close>. The attributes \<open>_prev_ema_fast\<close> and \<open>_prev_ema_medium\<close>, which
  no parameter sets, have no influence on the result.
\<close>

theorem get_signal_deterministic:
  "get_signal eng now2 ohlcv_data =
     map_sum id (map_option (\<lambda>s. s\<lparr>timestamp := now2\<rparr>)) (get_signal eng now1 ohlcv_data) \<and>
   get_signal (eng\<lparr>prev_ema_fast := a, prev_ema_medium := b\<rparr>) now1 ohlcv_data =
     get_signal eng now1 ohlcv_data"
proof (rule conjI)
  show "get_signal eng now2 ohlcv_data =
     map_sum id (map_option (\<lambda>s. s\<lparr>timestamp := now2\<rparr>)) (get_signal eng now1 ohlcv_data)"
    unfolding get_signal_def Let_def
    by (auto simp: map_sum_ebind build_signal_timestamp [of eng now2 _ _ _ _ _ _ _ _ _ now1]
        split: option.splits intro!: ebind_cong_fun)
next
  show "get_signal (eng\<lparr>prev_ema_fast := a, prev_ema_medium := b\<rparr>) now1 ohlcv_data =
     get_signal eng now1 ohlcv_data"
    unfolding get_signal_def Let_def by (simp add: build_signal_prev cong: if_cong option.case_cong)
qed

theorem get_signal_deterministic_witness:
  "get_signal slow_engine 9 breakout_market =
   Inr (Some \<lparr>action = ''BUY'', entry_price = 110, stop_loss = 98901 / 1000,
     take_profit = 110 + (110 - 98901 / 1000) * (15 / 10), swing_point = 99,
     ema_9 = 100 + 20 / 249, ema_21 = 100 + 20 / 250, ema_200 = 100 + 20 / 241,
     risk_reward_ratio = 15 / 10, confidence = 50, timestamp = 9,
     reason = [GoldenCross, AboveEMA200 110 (100 + 20 / 241), SLSwingLow 99,
               TPWithRRR (15 / 10), ConfidenceLevel 50]\<rparr>)"
  using get_signal_deterministic [of slow_engine 9 breakout_market 7] breakout_signal
  by simp

text \<open>
  Claim C9. In \<open>calculate_confidence\<close> the volume confirmation never takes the branch
  that adds 25 points: it adds 15 points when \<open>volume_ratio > 1.2\<close> and nothing
  otherwise, so that the result is the confidence of trend and price position plus that
  bonus, clamped to the interval from 0 to 100.
\<close>

theorem volume_bonus_never_25:
  "volume_confirmation volume_ratio \<noteq> HighVolume \<and>
   volume_bonus (volume_confirmation volume_ratio) =
     (if volume_ratio > 12 / 10 then 15 else 0) \<and>
   calculate_confidence act close e9 e21 e200 volume_ratio =
     map_sum id (\<lambda>c. max 0 (min 100 (c + (if volume_ratio > 12 / 10 then 15 else 0))))
       (trend_confidence act close e9 e21 e200)"
  by (cases "trend_confidence act close e9 e21 e200")
     (auto simp: volume_confirmation_def calculate_confidence_def)


theorem volume_bonus_never_25_witness:
  "volume_confirmation (16 / 10) = AboveAverageVolume \<and>
   volume_bonus (volume_confirmation (16 / 10)) = 15 \<and>
   calculate_confidence ''BUY'' 100 (995 / 10) 99 90 (16 / 10) = Inr 90"
  using volume_bonus_never_25 [of "16 / 10" "''BUY''" 100 "995 / 10" 99 90]
  by (simp add: trend_confidence_def volume_confirmation_def)

section \<open>Properties of the bot\<close>

lemma bot_log_frame [simp]:
  "config (bot_log b now level message data) = config b"
  "state (bot_log b now level message data) = state b"
  "running (bot_log b now level message data) = running b"
  "on_log (bot_log b now level message data) = on_log b"
  "on_state_change (bot_log b now level message data) = on_state_change b"
  "on_trade (bot_log b now level message data) = on_trade b"
  "strategy (bot_log b now level message data) = strategy b"
  "risk_manager (bot_log b now level message data) = risk_manager b"
  "executor (bot_log b now level message data) = executor b"
  "data_fetcher (bot_log b now level message data) = data_fetcher b"
  "trade_history (bot_log b now level message data) = trade_history b"
  "open_positions (bot_log b now level message data) = open_positions b"
  "current_signal (bot_log b now level message data) = current_signal b"
  "last_analysis (bot_log b now level message data) = last_analysis b"
  "stats (bot_log b now level message data) = stats b"
  by (simp_all add: bot_log_def Let_def)

lemma set_state_frame [simp]:
  "config (set_state b now s) = config b"
  "risk_manager (set_state b now s) = risk_manager b"
  "executor (set_state b now s) = executor b"
  "open_positions (set_state b now s) = open_positions b"
  "stats (set_state b now s) = stats b"
  "on_trade (set_state b now s) = on_trade b"
  by (simp_all add: set_state_def Let_def)


lemma fresh_bot_ledger:
  "TradingBot_init cfg log_cb state_cb trade_cb now = Inr b \<Longrightarrow>
   open_positions b = [] \<and> config b = cfg"
  by (auto simp add: TradingBot_init_def Let_def split: option.splits)



text \<open>
  The scenario of a cap of one position: the first signal is sized, sent to the simulated
  executor and filled; the second one, arriving while that position is open, is skipped
  with a warning, and no new order is placed.
\<close>

lemma first_signal_fills:
  "fst (bot_execute_signal example_bot example_clock (Inl ValueError) example_signal) = None"
  "open_positions
     (snd (bot_execute_signal example_bot example_clock (Inl ValueError) example_signal)) =
   [example_trade]"
  by code_simp+

lemma second_signal_skipped:
  "open_positions
     (snd (bot_execute_signal
        (snd (bot_execute_signal example_bot example_clock (Inl ValueError) example_signal))
        example_clock (Inl ValueError) example_signal)) = [example_trade]"
  "map l_message (logs
     (snd (bot_execute_signal
        (snd (bot_execute_signal example_bot example_clock (Inl ValueError) example_signal))
        example_clock (Inl ValueError) example_signal))) =
   [StateChanged RUNNING TRADING, PositionInfo (1 / 20) 100, OrderFilled ''DRY_000001'',
    MaxPositionsReached (PyInt 1)]"
  by code_simp+



lemma keep_last_append:
  "drop (length (drop (length xs - n) xs) + length ys - n) (drop (length xs - n) xs @ ys) =
   drop (length xs + length ys - n) (xs @ ys)"
proof (cases "length xs \<le> n")
  case True
  then show ?thesis by simp
next
  case False
  then have "length xs + length ys - n = (length xs - n) + length ys"
    and "length (drop (length xs - n) xs) + length ys - n = length ys"
    by simp_all
  then show ?thesis by (simp add: add.commute)
qed

lemma nat_int_minus: "nat (int n - int k) = n - k"
  by arith

lemma bot_log_logs:
  "logs (bot_log b now level message data) =
   drop (length (logs b) + 1 - 1000)
     (logs b @ [\<lparr>l_timestamp = now, l_level = level, l_message = message, l_data = data\<rparr>])"
  using nat_int_minus [of "length (logs b)" 999]
  by (simp add: bot_log_def Let_def py_slice_def slice_bound_def)

lemma hasattr_config_upd:
  "hasattr_config cfg key \<Longrightarrow> hasattr_config (cfg(key \<mapsto> v)) k = hasattr_config cfg k"
  by (auto simp add: hasattr_config_def)

lemma update_entries_cong:
  "(\<And>k. hasattr_config cfg' k = hasattr_config cfg k) \<Longrightarrow>
   update_entries cfg' now_at i updates = update_entries cfg now_at i updates"
  by (induction updates arbitrary: i) auto

lemma update_items_effect:
  assumes "\<forall>key \<in> fst ` set updates. \<not> special_name key"
  shows "update_items b now_at i updates =
         Some (b\<lparr>config := set_attributes (config b) updates,
                 logs :=
                   (if update_entries (config b) now_at i updates = [] then logs b
                    else drop (length (logs b) +
                               length (update_entries (config b) now_at i updates) - 1000)
                           (logs b @ update_entries (config b) now_at i updates)),
                 emitted := emitted b @
                   (if on_log b then map LogEvent (update_entries (config b) now_at i updates)
                    else [])\<rparr>)"
  using assms
proof (induction updates arbitrary: b i)
  case Nil
  show ?case by simp
next
  case (Cons item rest)
  obtain key v where item: "item = (key, v)" by (cases item)
  from Cons.prems item have nonspecial: "\<not> special_name key"
    and rest: "\<forall>key \<in> fst ` set rest. \<not> special_name key"
    by simp_all
  show ?case
  proof (cases "hasattr_config (config b) key")
    case False
    with nonspecial item Cons.IH [OF rest, of b "i + 1"] show ?thesis by simp
  next
    case True
    let ?e = "\<lparr>l_timestamp = now_at i, l_level = ''INFO'', l_message = ConfigUpdated key v,
               l_data = None\<rparr>"
    let ?b1 = "bot_log (b\<lparr>config := (config b)(key \<mapsto> v)\<rparr>) (now_at i) ''INFO''
                 (ConfigUpdated key v) None"
    have entries: "update_entries (config ?b1) now_at (i + 1) rest =
                   update_entries (config b) now_at (i + 1) rest"
      by (rule update_entries_cong) (simp add: hasattr_config_upd [OF True])
    have logs1: "logs ?b1 = drop (length (logs b) - 999) (logs b @ [?e])"
      by (simp add: bot_log_logs)
    have step: "update_items b now_at i (item # rest) = update_items ?b1 now_at (i + 1) rest"
      using True nonspecial item by simp
    have keep:
      "drop (length (logs ?b1) + length (update_entries (config b) now_at (i + 1) rest) - 1000)
         (logs ?b1 @ update_entries (config b) now_at (i + 1) rest) =
       drop (length (logs b) + length (?e # update_entries (config b) now_at (i + 1) rest)
             - 1000)
         (logs b @ ?e # update_entries (config b) now_at (i + 1) rest)"
      using keep_last_append [of "logs b @ [?e]" 1000
          "update_entries (config b) now_at (i + 1) rest"]
      by (simp add: logs1)
    show ?thesis
      unfolding step Cons.IH [OF rest, of ?b1 "i + 1"] entries keep
      using True item logs1 by (simp add: bot_log_def Let_def)
  qed
qed

lemma set_attributes_pointwise:
  "set_attributes cfg updates key =
     (if hasattr_config cfg key
      then (case map_of (rev updates) key of Some v \<Rightarrow> Some v | None \<Rightarrow> cfg key)
      else cfg key)"
proof (induction updates arbitrary: cfg)
  case Nil
  show ?case by simp
next
  case (Cons item rest)
  obtain k v where item: "item = (k, v)" by (cases item)
  show ?case
    unfolding item set_attributes.simps Cons.IH
    by (auto simp add: hasattr_config_def map_add_def split: option.splits)
qed

lemma update_entries_none:
  "\<forall>key \<in> fst ` set updates. \<not> hasattr_config cfg key \<Longrightarrow>
   update_entries cfg now_at i updates = [] \<and> set_attributes cfg updates = cfg"
  by (induction updates arbitrary: i) auto

text \<open>
  Claim C10 says that \<open>update_config\<close> leaves all bot state other than the named config
  fields unchanged. It does not: the method logs every attribute it sets. Setting the
  symbol of the example bot, whose log is empty, leaves a log of one entry, which is also
  passed to \<open>on_log\<close>.
\<close>

theorem update_config_logs_counterexample:
  "map_option logs
     (update_config example_bot example_clock [(''symbol'', PyStr ''ETHUSDT'')]) =
   Some [\<lparr>l_timestamp = 100, l_level = ''INFO'',
          l_message = ConfigUpdated ''symbol'' (PyStr ''ETHUSDT''), l_data = None\<rparr>] \<and>
   map_option emitted
     (update_config example_bot example_clock [(''symbol'', PyStr ''ETHUSDT'')]) =
   Some [LogEvent \<lparr>l_timestamp = 100, l_level = ''INFO'',
          l_message = ConfigUpdated ''symbol'' (PyStr ''ETHUSDT''), l_data = None\<rparr>] \<and>
   logs example_bot = [] \<and> emitted example_bot = []"
  by (simp add: update_config_def special_name_def hasattr_config_def example_bot_def
      BotConfig_init_def bot_log_def example_clock_def Let_def)

text \<open>
  Claim C10, amended. For an update map without special attribute names,
  \<open>update_config\<close> returns. An attribute of the config named by a key of the map gets
  the value of that key, every other attribute keeps its value, and a key that is not
  an attribute of the config adds none. Of the rest of the bot only the log changes: it
  receives one \<open>INFO\<close> entry for every key that is an attribute, in the order of the map,
  and keeps its last 1000 entries; the entries are passed to \<open>on_log\<close> when it is set. A
  map none of whose keys is an attribute leaves the bot as it is.
\<close>

theorem update_config_effect:
  assumes "\<forall>key \<in> fst ` set updates. \<not> special_name key"
  shows "\<exists>b'. update_config b now_at updates = Some b' \<and>
           (\<forall>key. config b' key =
              (if hasattr_config (config b) key
               then (case map_of (rev updates) key of
                       Some v \<Rightarrow> Some v
                     | None \<Rightarrow> config b key)
               else config b key)) \<and>
           logs b' =
             (if update_entries (config b) now_at 0 updates = [] then logs b
              else drop (length (logs b) +
                         length (update_entries (config b) now_at 0 updates) - 1000)
                     (logs b @ update_entries (config b) now_at 0 updates)) \<and>
           emitted b' = emitted b @
             (if on_log b then map LogEvent (update_entries (config b) now_at 0 updates)
              else []) \<and>
           b' = b\<lparr>config := config b', logs := logs b', emitted := emitted b'\<rparr> \<and>
           ((\<forall>key \<in> fst ` set updates. \<not> hasattr_config (config b) key) \<longrightarrow> b' = b)"
  unfolding update_config_def update_items_effect [OF assms]
  by (auto simp add: set_attributes_pointwise update_entries_none)

theorem update_config_effect_witness:
  "map_option logs
     (update_config example_bot example_clock
        [(''colour'', PyStr ''red''), (''symbol'', PyStr ''ETHUSDT'')]) =
   Some [\<lparr>l_timestamp = 101, l_level = ''INFO'',
          l_message = ConfigUpdated ''symbol'' (PyStr ''ETHUSDT''), l_data = None\<rparr>] \<and>
   map_option open_positions
     (update_config example_bot example_clock
        [(''colour'', PyStr ''red''), (''symbol'', PyStr ''ETHUSDT'')]) = Some [] \<and>
   map_option stats
     (update_config example_bot example_clock
        [(''colour'', PyStr ''red''), (''symbol'', PyStr ''ETHUSDT'')]) =
   Some (stats example_bot)"
proof -
  let ?ups = "[(''colour'', PyStr ''red''), (''symbol'', PyStr ''ETHUSDT'')]"
  have "\<forall>key \<in> fst ` set ?ups. \<not> special_name key"
    by (simp add: special_name_def)
  from update_config_effect [OF this, of example_bot example_clock]
  obtain b' where run: "update_config example_bot example_clock ?ups = Some b'"
    and lg: "logs b' =
      (if update_entries (config example_bot) example_clock 0 ?ups = [] then logs example_bot
       else drop (length (logs example_bot) +
                  length (update_entries (config example_bot) example_clock 0 ?ups) - 1000)
              (logs example_bot @ update_entries (config example_bot) example_clock 0 ?ups))"
    and frame: "b' = example_bot\<lparr>config := config b', logs := logs b',
                                   emitted := emitted b'\<rparr>"
    by blast
  have "open_positions b' = []"
    using arg_cong [OF frame, of open_positions] by (simp add: example_bot_def)
  moreover have "stats b' = stats example_bot"
    using arg_cong [OF frame, of stats] by simp
  moreover have "logs b' =
      [\<lparr>l_timestamp = 101, l_level = ''INFO'',
        l_message = ConfigUpdated ''symbol'' (PyStr ''ETHUSDT''), l_data = None\<rparr>]"
    unfolding lg
    by (simp add: hasattr_config_def example_bot_def BotConfig_init_def example_clock_def)
  ultimately show ?thesis
    by (simp add: run)
qed

end
